theory Spec2Isabelle
  imports Main "HOL-Library.AList"
begin

section \<open>Data model of the chat server (src/server.js)\<close>

text \<open>
  The server keeps its state in process-wide JavaScript containers (server.js, lines 24-39).
  A JavaScript \<open>Map\<close> iterates in insertion order, so \<open>users\<close> and \<open>rooms\<close>, which the code
  iterates, are association lists with distinct keys: \<open>Map.get\<close> is \<open>map_of\<close>, \<open>Map.set\<close> is
  \<open>AList.update\<close> (replace in place, else append) and \<open>Map.delete\<close> is \<open>AList.delete\<close>.
  The maps the code only looks up by key are partial functions.  A \<open>Set\<close> of member ids is
  a duplicate-free list in insertion order: \<open>size\<close> is \<open>length\<close>, \<open>add\<close> appends an absent
  element and \<open>delete\<close> removes the element.  Timestamps (\<open>new Date()\<close>, \<open>Date.now()\<close>) are
  integers of milliseconds handed to each handler, fresh identifiers (\<open>uuidv4()\<close>) and the
  two bcrypt functions are parameters of the handlers that call them.  Every handler is
  one atomic step from a state to the effects it causes and the next state.
\<close>

type_synonym uid = string
type_synonym sid = string
type_synonym rid = string
type_synonym digest = string
type_synonym payload = string

record user =
  user_id :: uid
  user_name :: string
  avatarUrl :: "string option"
  socketId :: sid
  joinedAt :: int
  lastSeen :: int

record room =
  room_id :: rid
  room_name :: string
  isPrivate :: bool
  pinHash :: "digest option"
  leadUserId :: uid
  members :: "uid list"
  maxMembers :: int
  createdAt :: int

record session =
  sess_userId :: uid
  connectedAt :: int
  lastActivity :: int

record rate_entry =
  count :: nat
  resetTime :: int

record state =
  users :: "(uid \<times> user) list"
  rooms :: "(rid \<times> room) list"
  socketToUser :: "sid \<rightharpoonup> uid"
  userSessions :: "sid \<rightharpoonup> session"
  userMessageCounts :: "uid \<rightharpoonup> rate_entry"
  userFileCounts :: "uid \<rightharpoonup> rate_entry"

definition MAX_ROOM_MEMBERS :: int where
  "MAX_ROOM_MEMBERS = 50"

definition MAX_ROOMS_PER_USER :: nat where
  "MAX_ROOMS_PER_USER = 10"

definition MAX_TOTAL_USERS :: nat where
  "MAX_TOTAL_USERS = 200"

definition MESSAGE_RATE_LIMIT :: nat where
  "MESSAGE_RATE_LIMIT = 10"

definition FILE_RATE_LIMIT :: nat where
  "FILE_RATE_LIMIT = 5"

definition initial_state :: state where
  "initial_state = \<lparr>users = [], rooms = [], socketToUser = Map.empty,
     userSessions = Map.empty, userMessageCounts = Map.empty, userFileCounts = Map.empty\<rparr>"

text \<open>JavaScript truthiness of a value that is a string or \<open>undefined\<close>/\<open>null\<close>.\<close>

fun truthy :: "string option \<Rightarrow> bool" where
  "truthy None = False"
| "truthy (Some s) = (s \<noteq> [])"

text \<open>\<open>Set.prototype.add\<close> and \<open>Set.prototype.delete\<close> on a set kept in insertion order.\<close>

definition set_add :: "'a \<Rightarrow> 'a list \<Rightarrow> 'a list" where
  "set_add x xs = (if x \<in> set xs then xs else xs @ [x])"

definition set_delete :: "'a \<Rightarrow> 'a list \<Rightarrow> 'a list" where
  "set_delete x xs = removeAll x xs"

text \<open>\<open>room.members.has(userId)\<close> where \<open>userId\<close> may be \<open>undefined\<close>.\<close>

fun has_member :: "room \<Rightarrow> uid option \<Rightarrow> bool" where
  "has_member room None = False"
| "has_member room (Some u) = (u \<in> set (members room))"

subsection \<open>escapeHtml (lines 642-651)\<close>

fun escape_char :: "char \<Rightarrow> string" where
  "escape_char c =
     (if c = CHR ''&'' then ''&amp;''
      else if c = CHR ''<'' then ''&lt;''
      else if c = CHR ''>'' then ''&gt;''
      else if c = CHR 0x22 then ''&quot;''
      else if c = CHR 0x27 then ''&#039;''
      else [c])"

definition escapeHtml :: "string \<Rightarrow> string" where
  "escapeHtml text = concat (map escape_char text)"

subsection \<open>checkRateLimit (lines 653-675)\<close>

definition checkRateLimit :: "int \<Rightarrow> uid \<Rightarrow> string \<Rightarrow> state \<Rightarrow> bool \<times> state" where
  "checkRateLimit now userId type s =
     (let limit = (if type = ''message'' then MESSAGE_RATE_LIMIT else FILE_RATE_LIMIT);
          counts = (if type = ''message'' then userMessageCounts s else userFileCounts s);
          store = (\<lambda>c. if type = ''message'' then s\<lparr>userMessageCounts := c\<rparr>
                        else s\<lparr>userFileCounts := c\<rparr>)
      in case counts userId of
           None \<Rightarrow> (True, store (counts(userId \<mapsto> \<lparr>count = 1, resetTime = now + 60000\<rparr>)))
         | Some userCount \<Rightarrow>
             if now > resetTime userCount
             then (True, store (counts(userId \<mapsto> \<lparr>count = 1, resetTime = now + 60000\<rparr>)))
             else if count userCount \<ge> limit then (False, s)
             else (True, store (counts(userId \<mapsto> userCount\<lparr>count := count userCount + 1\<rparr>))))"

text \<open>A sequence of checks of one identity and class at the given times, in order.\<close>

fun run_checks :: "uid \<Rightarrow> string \<Rightarrow> int list \<Rightarrow> state \<Rightarrow> bool list \<times> state" where
  "run_checks u ty [] s = ([], s)"
| "run_checks u ty (t # ts) s =
     (case checkRateLimit t u ty s of
        (ok, s') \<Rightarrow> (case run_checks u ty ts s' of (oks, s'') \<Rightarrow> (ok # oks, s'')))"

text \<open>A sequence of checks of any identities and classes: (time, identity, class).\<close>

fun run_calls :: "(int \<times> uid \<times> string) list \<Rightarrow> state \<Rightarrow> state" where
  "run_calls [] s = s"
| "run_calls ((now, u, ty) # cs) s = run_calls cs (snd (checkRateLimit now u ty s))"

definition counter_of :: "string \<Rightarrow> state \<Rightarrow> uid \<Rightarrow> nat" where
  "counter_of ty s u =
     (case (if ty = ''message'' then userMessageCounts s else userFileCounts s) u of
        None \<Rightarrow> 0 | Some e \<Rightarrow> count e)"

definition limit_of :: "string \<Rightarrow> nat" where
  "limit_of ty = (if ty = ''message'' then MESSAGE_RATE_LIMIT else FILE_RATE_LIMIT)"

subsection \<open>serializeRoom (lines 677-696)\<close>

record member_view =
  m_id :: uid
  m_name :: string
  m_avatarUrl :: "string option"
  m_lastSeen :: int

record room_view =
  v_id :: rid
  v_name :: string
  v_isPrivate :: bool
  v_leadUserId :: uid
  v_maxMembers :: int
  memberCount :: nat
  v_createdAt :: int
  v_members :: "member_view list"

definition member_view_of :: "user \<Rightarrow> member_view" where
  "member_view_of u = \<lparr>m_id = user_id u, m_name = user_name u,
     m_avatarUrl = avatarUrl u, m_lastSeen = lastSeen u\<rparr>"

definition member_entry :: "(uid \<times> user) list \<Rightarrow> uid \<Rightarrow> member_view option" where
  "member_entry us userId =
     (case map_of us userId of
        Some u \<Rightarrow> Some (member_view_of u)
      | None \<Rightarrow> None)"

definition serializeRoom :: "(uid \<times> user) list \<Rightarrow> room \<Rightarrow> room_view" where
  "serializeRoom us room =
     \<lparr>v_id = room_id room,
      v_name = room_name room,
      v_isPrivate = isPrivate room,
      v_leadUserId = leadUserId room,
      v_maxMembers = maxMembers room,
      memberCount = length (members room),
      v_createdAt = createdAt room,
      v_members = List.map_filter (member_entry us) (members room)\<rparr>"

section \<open>Effects of a handler\<close>

text \<open>
  What a handler does besides changing the registries is recorded in order: every
  \<open>emit\<close> with its addressee, and the calls that change socket.io's own room
  subscriptions (\<open>socket.join\<close>, \<open>socket.leave\<close>, \<open>socketsLeave\<close>).  \<open>ToSocket\<close> is
  \<open>socket.emit\<close> and \<open>io.to(socketId).emit\<close>, \<open>ToRoomExcept r s\<close> is \<open>socket.to(r).emit\<close>
  from socket \<open>s\<close>, \<open>ToRoom\<close> is \<open>io.to(r).emit\<close> and \<open>ToAll\<close> is \<open>io.emit\<close>.
\<close>

datatype target = ToSocket sid | ToRoomExcept rid sid | ToRoom rid | ToAll

record user_entry =
  l_id :: uid
  l_name :: string
  l_avatarUrl :: "string option"
  l_joinedAt :: int
  l_lastSeen :: int

datatype event =
    Error string
  | UserJoined uid user nat nat nat
  | UserList "user_entry list"
  | RoomCreated rid room_view
  | RoomJoined rid room_view
  | RoomUpdate rid room_view
  | RoomList "room_view list"
  | RoomKicked rid
  | RoomLeft rid
  | RoomMessage rid payload
  | RoomTyping rid uid bool
  | RoomMessageEdit rid string payload uid
  | RoomMessageDelete rid string uid
  | RoomReaction rid string string string uid
  | RoomFileStart rid string string int int uid string
  | RoomFileChunk rid string int payload uid
  | RoomFileEnd rid string uid
  | WebrtcOffer "uid option" payload "rid option"
  | WebrtcAnswer "uid option" payload "rid option"
  | WebrtcIceCandidate "uid option" payload "rid option"

datatype effect =
    Emit target event
  | SocketJoin sid rid
  | SocketLeave sid rid
  | SocketsLeave sid rid

definition err :: "sid \<Rightarrow> string \<Rightarrow> effect" where
  "err sock msg = Emit (ToSocket sock) (Error msg)"

subsection \<open>broadcastUserList, broadcastRoomList (lines 698-712)\<close>

definition broadcastUserList :: "state \<Rightarrow> effect" where
  "broadcastUserList s =
     Emit ToAll (UserList (map (\<lambda>u. \<lparr>l_id = user_id u, l_name = user_name u,
        l_avatarUrl = avatarUrl u, l_joinedAt = joinedAt u, l_lastSeen = lastSeen u\<rparr>)
        (map snd (users s))))"

definition broadcastRoomList :: "state \<Rightarrow> effect" where
  "broadcastRoomList s = Emit ToAll (RoomList (map (serializeRoom (users s)) (map snd (rooms s))))"

text \<open>
  The loop shared by the message and file handlers:
  \<open>room.members.forEach(memberId => { const member = users.get(memberId);
  if (member && member.socketId !== socket.id) io.to(member.socketId).emit(...) })\<close>.
\<close>

definition other_members :: "(uid \<times> user) list \<Rightarrow> sid \<Rightarrow> room \<Rightarrow> user list" where
  "other_members us sock room =
     filter (\<lambda>member. socketId member \<noteq> sock) (List.map_filter (map_of us) (members room))"

definition to_other_members :: "(uid \<times> user) list \<Rightarrow> sid \<Rightarrow> room \<Rightarrow> event \<Rightarrow> effect list" where
  "to_other_members us sock room ev =
     map (\<lambda>member. Emit (ToSocket (socketId member)) ev) (other_members us sock room)"

text \<open>\<open>const user = users.get(userId); if (user) user.lastSeen = new Date()\<close>.\<close>

definition touch_user :: "int \<Rightarrow> uid \<Rightarrow> (uid \<times> user) list \<Rightarrow> (uid \<times> user) list" where
  "touch_user now userId us =
     (case map_of us userId of
        None \<Rightarrow> us
      | Some u \<Rightarrow> AList.update userId (u\<lparr>lastSeen := now\<rparr>) us)"

section \<open>The socket handlers\<close>

subsection \<open>user:join (lines 54-103)\<close>

definition user_join ::
  "uid \<Rightarrow> int \<Rightarrow> sid \<Rightarrow> string \<Rightarrow> uid option \<Rightarrow> string option \<Rightarrow> state \<Rightarrow> effect list \<times> state" where
  "user_join fresh now sock name userId avatar s =
     (if length (users s) \<ge> MAX_TOTAL_USERS
      then ([err sock ''Server is at capacity. Please try again later.''], s)
      else
        let finalUserId = (case userId of
                             None \<Rightarrow> fresh
                           | Some u \<Rightarrow> if u = [] \<or> map_of (users s) u = None then fresh else u);
            u = \<lparr>user_id = finalUserId, user_name = escapeHtml name,
                 avatarUrl = (if truthy avatar then avatar else None),
                 socketId = sock, joinedAt = now, lastSeen = now\<rparr>;
            s' = s\<lparr>users := AList.update finalUserId u (users s),
                   socketToUser := (socketToUser s)(sock \<mapsto> finalUserId),
                   userSessions := (userSessions s)(sock \<mapsto>
                      \<lparr>sess_userId = finalUserId, connectedAt = now, lastActivity = now\<rparr>)\<rparr>
        in ([Emit (ToSocket sock)
               (UserJoined finalUserId u (length (users s')) (length (rooms s')) MAX_TOTAL_USERS),
             broadcastUserList s'], s'))"

subsection \<open>room:create (lines 126-170)\<close>

text \<open>
  \<open>maxMembers\<close> of the request is an integer or absent; \<open>maxMembers || MAX_ROOM_MEMBERS\<close>
  takes the default for an absent value and for 0.
\<close>

definition room_create ::
  "(string \<Rightarrow> digest) \<Rightarrow> rid \<Rightarrow> int \<Rightarrow> sid \<Rightarrow> string \<Rightarrow> bool \<Rightarrow> string option \<Rightarrow> int option
     \<Rightarrow> state \<Rightarrow> effect list \<times> state" where
  "room_create bhash roomId now sock name isPriv pin maxM s =
     (case socketToUser s sock of
        None \<Rightarrow> ([err sock ''User not found''], s)
      | Some userId \<Rightarrow>
          if userId = [] \<or> map_of (users s) userId = None
          then ([err sock ''User not found''], s)
          else if length (filter (\<lambda>r. leadUserId r = userId) (map snd (rooms s))) \<ge> MAX_ROOMS_PER_USER
          then ([err sock ''You can only create up to 10 rooms''], s)
          else
            let hashed = (case pin of
                            None \<Rightarrow> None
                          | Some p \<Rightarrow> if isPriv \<and> p \<noteq> [] then Some (bhash p) else None);
                r = \<lparr>room_id = roomId, room_name = escapeHtml name, isPrivate = isPriv,
                     pinHash = hashed, leadUserId = userId, members = [userId],
                     maxMembers = min (case maxM of
                                         None \<Rightarrow> MAX_ROOM_MEMBERS
                                       | Some n \<Rightarrow> if n = 0 then MAX_ROOM_MEMBERS else n)
                                      MAX_ROOM_MEMBERS,
                     createdAt = now\<rparr>;
                s' = s\<lparr>rooms := AList.update roomId r (rooms s)\<rparr>
            in ([SocketJoin sock roomId,
                 Emit (ToSocket sock) (RoomCreated roomId (serializeRoom (users s') r)),
                 broadcastRoomList s'], s'))"

subsection \<open>room:join (lines 173-225)\<close>

definition room_join ::
  "(string \<Rightarrow> digest \<Rightarrow> bool) \<Rightarrow> int \<Rightarrow> sid \<Rightarrow> rid \<Rightarrow> string option \<Rightarrow> state
     \<Rightarrow> effect list \<times> state" where
  "room_join bcompare now sock roomId pin s =
     (case socketToUser s sock of
        None \<Rightarrow> ([err sock ''User not found''], s)
      | Some userId \<Rightarrow>
          if userId = [] \<or> map_of (users s) userId = None
          then ([err sock ''User not found''], s)
          else
            (case map_of (rooms s) roomId of
               None \<Rightarrow> ([err sock ''Room not found''], s)
             | Some r \<Rightarrow>
                 if int (length (members r)) \<ge> maxMembers r
                 then ([err sock ''Room is full''], s)
                 else if userId \<in> set (members r)
                 then ([err sock ''You are already in this room''], s)
                 else if isPrivate r \<and> truthy (pinHash r) \<and>
                         (case (pin, pinHash r) of
                            (Some p, Some h) \<Rightarrow> p = [] \<or> \<not> bcompare p h
                          | _ \<Rightarrow> True)
                 then ([err sock ''Invalid PIN''], s)
                 else
                   let r' = r\<lparr>members := set_add userId (members r)\<rparr>;
                       s' = s\<lparr>rooms := AList.update roomId r' (rooms s),
                              users := touch_user now userId (users s)\<rparr>
                   in ([SocketJoin sock roomId,
                        Emit (ToSocket sock) (RoomJoined roomId (serializeRoom (users s') r')),
                        Emit (ToRoomExcept roomId sock)
                          (RoomUpdate roomId (serializeRoom (users s') r'))], s')))"

subsection \<open>room:joinByPin (lines 228-266)\<close>

text \<open>The scan \<open>for (const room of rooms.values())\<close> that stops at the first match.\<close>

fun find_pin_room ::
  "(string \<Rightarrow> digest \<Rightarrow> bool) \<Rightarrow> string \<Rightarrow> (rid \<times> room) list \<Rightarrow> (rid \<times> room) option" where
  "find_pin_room bcompare pin [] = None"
| "find_pin_room bcompare pin ((k, r) # rest) =
     (if isPrivate r \<and> truthy (pinHash r) \<and>
         (case pinHash r of None \<Rightarrow> False | Some h \<Rightarrow> bcompare pin h)
      then Some (k, r)
      else find_pin_room bcompare pin rest)"

definition room_joinByPin ::
  "(string \<Rightarrow> digest \<Rightarrow> bool) \<Rightarrow> sid \<Rightarrow> string option \<Rightarrow> state \<Rightarrow> effect list \<times> state" where
  "room_joinByPin bcompare sock pin s =
     (case socketToUser s sock of
        None \<Rightarrow> ([err sock ''User not found''], s)
      | Some userId \<Rightarrow>
          if userId = [] \<or> map_of (users s) userId = None
          then ([err sock ''User not found''], s)
          else
            (case pin of
               None \<Rightarrow> ([err sock ''PIN is required''], s)
             | Some p \<Rightarrow>
                 if p = [] then ([err sock ''PIN is required''], s)
                 else
                   (case find_pin_room bcompare p (rooms s) of
                      None \<Rightarrow> ([err sock ''Invalid PIN or room not found''], s)
                    | Some (k, targetRoom) \<Rightarrow>
                        let r' = targetRoom\<lparr>members := set_add userId (members targetRoom)\<rparr>;
                            s' = s\<lparr>rooms := AList.update k r' (rooms s)\<rparr>
                        in ([SocketJoin sock (room_id r'),
                             Emit (ToSocket sock)
                               (RoomJoined (room_id r') (serializeRoom (users s') r')),
                             Emit (ToRoomExcept (room_id r') sock)
                               (RoomUpdate (room_id r') (serializeRoom (users s') r')),
                             broadcastRoomList s'], s'))))"

subsection \<open>room:kick (lines 269-293)\<close>

definition room_kick :: "sid \<Rightarrow> rid \<Rightarrow> uid \<Rightarrow> state \<Rightarrow> effect list \<times> state" where
  "room_kick sock roomId targetUserId s =
     (case map_of (rooms s) roomId of
        None \<Rightarrow> ([err sock ''Unauthorized''], s)
      | Some r \<Rightarrow>
          if Some (leadUserId r) \<noteq> socketToUser s sock
          then ([err sock ''Unauthorized''], s)
          else if targetUserId \<in> set (members r)
          then
            let r' = r\<lparr>members := set_delete targetUserId (members r)\<rparr>;
                s' = s\<lparr>rooms := AList.update roomId r' (rooms s)\<rparr>
            in ((case map_of (users s) targetUserId of
                   None \<Rightarrow> []
                 | Some targetUser \<Rightarrow>
                     [SocketsLeave (socketId targetUser) roomId,
                      Emit (ToSocket (socketId targetUser)) (RoomKicked roomId)])
                @ [Emit (ToRoomExcept roomId sock) (RoomUpdate roomId (serializeRoom (users s') r'))],
                s')
          else ([], s))"

subsection \<open>room:list:request (lines 297-311)\<close>


subsection \<open>room:leave (lines 314-337)\<close>

text \<open>
  After the deletion the size is tested: the empty case deletes the room, the other one
  takes \<open>room.members.values().next().value\<close>, the first remaining member in insertion
  order, as the new lead when the lead left.
\<close>

definition room_leave :: "sid \<Rightarrow> rid \<Rightarrow> state \<Rightarrow> effect list \<times> state" where
  "room_leave sock roomId s =
     (case (socketToUser s sock, map_of (rooms s) roomId) of
        (Some userId, Some r) \<Rightarrow>
          if userId \<in> set (members r)
          then
            (case set_delete userId (members r) of
               [] \<Rightarrow>
                 let r' = r\<lparr>members := []\<rparr>;
                     s' = s\<lparr>rooms := AList.delete roomId (rooms s)\<rparr>
                 in ([SocketLeave sock roomId,
                      Emit (ToSocket sock) (RoomLeft roomId),
                      Emit (ToRoomExcept roomId sock)
                        (RoomUpdate roomId (serializeRoom (users s') r')),
                      broadcastRoomList s'], s')
             | m # ms \<Rightarrow>
                 let r' = r\<lparr>members := m # ms,
                            leadUserId := (if leadUserId r = userId then m else leadUserId r)\<rparr>;
                     s' = s\<lparr>rooms := AList.update roomId r' (rooms s)\<rparr>
                 in ([SocketLeave sock roomId,
                      Emit (ToSocket sock) (RoomLeft roomId),
                      Emit (ToRoomExcept roomId sock)
                        (RoomUpdate roomId (serializeRoom (users s') r')),
                      broadcastRoomList s'], s'))
          else ([], s)
      | _ \<Rightarrow> ([], s))"

subsection \<open>Room-scoped events (lines 340-430)\<close>

text \<open>
  Every handler below starts with \<open>const userId = socketToUser.get(socket.id);
  const room = rooms.get(roomId); if (!room || !room.members.has(userId))\<close>:
  \<open>sender_in_room\<close> is the pair the handler goes on with, when there is one.
\<close>

definition sender_in_room :: "state \<Rightarrow> sid \<Rightarrow> rid \<Rightarrow> (uid \<times> room) option" where
  "sender_in_room s sock roomId =
     (case (socketToUser s sock, map_of (rooms s) roomId) of
        (Some userId, Some r) \<Rightarrow> if userId \<in> set (members r) then Some (userId, r) else None
      | _ \<Rightarrow> None)"






subsection \<open>File transfer relay (lines 433-535)\<close>

definition MAX_FILE_SIZE :: int where
  "MAX_FILE_SIZE = 50 * 1024 * 1024"

text \<open>
  The \<open>fileName\<close> of a start is a string, or a value that is no string (\<open>None\<close>: the field
  is missing, \<open>null\<close> or a number); \<open>fileSize\<close> and \<open>totalChunks\<close> are integers.
  Two expressions of the handler can throw after the checks, both into the \<open>catch\<close> that
  reports the failure, with the rate counter advanced by then.  \<open>user.name\<close> of
  \<open>users.get(userId)\<close> is read for the first addressee and again for the log line: when
  the sender does not resolve, it throws before anything is emitted.
  \<open>escapeHtml(fileName)\<close> is called for the first addressee only: on a value that is no
  string it throws before anything is emitted, when there is an addressee, and is
  never called when there is none (the log line prints any value).
\<close>

definition room_file_start ::
  "int \<Rightarrow> sid \<Rightarrow> rid \<Rightarrow> string \<Rightarrow> string option \<Rightarrow> int \<Rightarrow> int \<Rightarrow> state
     \<Rightarrow> effect list \<times> state" where
  "room_file_start now sock roomId fileId fileName fileSize totalChunks s =
     (case sender_in_room s sock roomId of
        None \<Rightarrow> ([err sock ''Not authorized to send files in this room''], s)
      | Some (userId, r) \<Rightarrow>
          (case checkRateLimit now userId ''file'' s of
             (allowed, s1) \<Rightarrow>
               if \<not> allowed
               then ([err sock ''File transfer rate limit exceeded. Please wait before sending another file.''], s1)
               else if fileSize > MAX_FILE_SIZE
               then ([err sock ''File size too large. Maximum 50MB allowed.''], s1)
               else if totalChunks > 1000
               then ([err sock ''Too many chunks. Please try a smaller file.''], s1)
               else
                 (case map_of (users s1) userId of
                    None \<Rightarrow> ([err sock ''Failed to start file transfer''], s1)
                  | Some u \<Rightarrow>
                      (case fileName of
                         None \<Rightarrow>
                           if other_members (users s1) sock r = [] then ([], s1)
                           else ([err sock ''Failed to start file transfer''], s1)
                       | Some fname \<Rightarrow>
                           (to_other_members (users s1) sock r
                              (RoomFileStart roomId fileId (escapeHtml fname) fileSize totalChunks
                                 userId (user_name u)), s1)))))"



subsection \<open>WebRTC signaling (lines 538-608)\<close>

text \<open>The optional \<open>roomId\<close> of a signaling message is a string or absent.\<close>

definition webrtc_offer ::
  "sid \<Rightarrow> uid \<Rightarrow> payload \<Rightarrow> rid option \<Rightarrow> state \<Rightarrow> effect list \<times> state" where
  "webrtc_offer sock targetUserId offer roomId s =
     (case map_of (users s) targetUserId of
        None \<Rightarrow> ([err sock ''Target user not found''], s)
      | Some targetUser \<Rightarrow>
          if truthy roomId \<and>
             (case roomId of
                None \<Rightarrow> False
              | Some rm \<Rightarrow>
                  (case map_of (rooms s) rm of
                     None \<Rightarrow> True
                   | Some r \<Rightarrow> \<not> has_member r (socketToUser s sock)
                                \<or> targetUserId \<notin> set (members r)))
          then ([err sock ''Both users must be in the same room for direct connection''], s)
          else ([Emit (ToSocket (socketId targetUser))
                   (WebrtcOffer (socketToUser s sock) offer roomId)], s))"

definition webrtc_answer ::
  "sid \<Rightarrow> uid \<Rightarrow> payload \<Rightarrow> rid option \<Rightarrow> state \<Rightarrow> effect list \<times> state" where
  "webrtc_answer sock targetUserId answer roomId s =
     (case map_of (users s) targetUserId of
        None \<Rightarrow> ([err sock ''Target user not found''], s)
      | Some targetUser \<Rightarrow>
          ([Emit (ToSocket (socketId targetUser))
              (WebrtcAnswer (socketToUser s sock) answer roomId)], s))"

definition webrtc_ice_candidate ::
  "sid \<Rightarrow> uid \<Rightarrow> payload \<Rightarrow> rid option \<Rightarrow> state \<Rightarrow> effect list \<times> state" where
  "webrtc_ice_candidate sock targetUserId candidate roomId s =
     (case map_of (users s) targetUserId of
        None \<Rightarrow> ([err sock ''Target user not found''], s)
      | Some targetUser \<Rightarrow>
          ([Emit (ToSocket (socketId targetUser))
              (WebrtcIceCandidate (socketToUser s sock) candidate roomId)], s))"

subsection \<open>disconnect (lines 611-638)\<close>

text \<open>
  The loop \<open>for (const [roomId, room] of rooms.entries())\<close> deletes only the entry it is
  at, so it visits every room of the directory once, in order.
\<close>

fun remove_from_rooms ::
  "(uid \<times> user) list \<Rightarrow> sid \<Rightarrow> uid \<Rightarrow> (rid \<times> room) list \<Rightarrow> effect list \<times> (rid \<times> room) list" where
  "remove_from_rooms us sock userId [] = ([], [])"
| "remove_from_rooms us sock userId ((roomId, r) # rest) =
     (case remove_from_rooms us sock userId rest of
        (effs, rest') \<Rightarrow>
          if userId \<in> set (members r)
          then
            (case set_delete userId (members r) of
               [] \<Rightarrow> (effs, rest')
             | m # ms \<Rightarrow>
                 let r' = r\<lparr>members := m # ms,
                            leadUserId := (if leadUserId r = userId then m else leadUserId r)\<rparr>
                 in (Emit (ToRoomExcept roomId sock) (RoomUpdate roomId (serializeRoom us r')) # effs,
                     (roomId, r') # rest'))
          else (effs, (roomId, r) # rest'))"

definition disconnect :: "sid \<Rightarrow> state \<Rightarrow> effect list \<times> state" where
  "disconnect sock s =
     (case socketToUser s sock of
        None \<Rightarrow> ([], s)
      | Some userId \<Rightarrow>
          if userId = [] then ([], s)
          else
            (case remove_from_rooms (users s) sock userId (rooms s) of
               (effs, rooms') \<Rightarrow>
                 let s' = s\<lparr>rooms := rooms',
                            users := AList.delete userId (users s),
                            socketToUser := (socketToUser s)(sock := None)\<rparr>
                 in (effs @ [broadcastUserList s', broadcastRoomList s'], s')))"

section \<open>Dispatch of inbound events\<close>






section \<open>The room invariant and example runs\<close>

text \<open>
  The invariant of the room directory: every room in it has a member, and its lead is
  one of its members.
\<close>

definition room_ok :: "room \<Rightarrow> bool" where
  "room_ok r = (members r \<noteq> [] \<and> leadUserId r \<in> set (members r))"

definition directory_ok :: "state \<Rightarrow> bool" where
  "directory_ok s = list_all room_ok (map snd (rooms s))"

text \<open>
  Runs of the handlers from the initial state, used as concrete inputs below.  Alice,
  Bob and Carol register on the sockets s1, s2 and s3; bcrypt is stood for by the
  identity as hash and equality as comparison.
\<close>

definition three_users :: state where
  "three_users =
     snd (user_join ''carol'' 2 ''s3'' ''Carol'' None None
       (snd (user_join ''bob'' 1 ''s2'' ''Bob'' None None
         (snd (user_join ''alice'' 0 ''s1'' ''Alice'' None None initial_state)))))"

text \<open>Alice has created the public room r1 and is alone in it.\<close>

definition solo_state :: state where
  "solo_state = snd (room_create (\<lambda>p. p) ''r1'' 3 ''s1'' ''lobby'' False None (Some 5) three_users)"

text \<open>Bob has joined Alice in r1.\<close>

definition lobby_state :: state where
  "lobby_state = snd (room_join (\<lambda>p h. p = h) 4 ''s2'' ''r1'' None solo_state)"

text \<open>Alice has created the private room r1 for two members, and Bob has joined it with the PIN.\<close>

definition den_state :: state where
  "den_state =
     snd (room_join (\<lambda>p h. p = h) 4 ''s2'' ''r1'' (Some ''4821'')
       (snd (room_create (\<lambda>p. p) ''r1'' 3 ''s1'' ''den'' True (Some ''4821'') (Some 2) three_users)))"



section \<open>Rate limiter\<close>

lemma map_upt_Suc_shift: "map f [0..<Suc n] = f 0 # map (\<lambda>k. f (Suc k)) [0..<n]"
proof -
  have "[0..<Suc n] = 0 # map Suc [0..<n]"
    by (simp add: upt_conv_Cons map_Suc_upt del: upt_Suc)
  then show ?thesis by (simp add: comp_def del: upt_Suc)
qed

lemma check_in_window:
  assumes "userMessageCounts s u = Some e" "now \<le> resetTime e"
  shows "checkRateLimit now u ''message'' s =
     (if count e < 10
      then (True, s\<lparr>userMessageCounts := (userMessageCounts s)(u \<mapsto> e\<lparr>count := count e + 1\<rparr>)\<rparr>)
      else (False, s))"
  using assms by (simp add: checkRateLimit_def MESSAGE_RATE_LIMIT_def Let_def)

lemma check_reset:
  assumes "case userMessageCounts s u of None \<Rightarrow> True | Some e \<Rightarrow> resetTime e < now"
  shows "checkRateLimit now u ''message'' s =
     (True, s\<lparr>userMessageCounts := (userMessageCounts s)(u \<mapsto> \<lparr>count = 1, resetTime = now + 60000\<rparr>)\<rparr>)"
  using assms by (auto simp: checkRateLimit_def Let_def split: option.splits)

text \<open>
  Inside one window the counter of an identity saturates at the limit: the check number
  \<open>k\<close> (from 0) on a counter that stands at \<open>c\<close> is allowed exactly when \<open>c + k < 10\<close>.
\<close>

lemma run_in_window:
  assumes "userMessageCounts s u = Some \<lparr>count = c, resetTime = r\<rparr>" "c \<le> 10" "\<forall>t\<in>set ts. t \<le> r"
  shows "run_checks u ''message'' ts s =
     (map (\<lambda>k. c + k < 10) [0..<length ts],
      s\<lparr>userMessageCounts := (userMessageCounts s)(u \<mapsto>
          \<lparr>count = min 10 (c + length ts), resetTime = r\<rparr>)\<rparr>)"
  using assms
proof (induction ts arbitrary: s c)
  case Nil
  have "(userMessageCounts s)(u \<mapsto> \<lparr>count = c, resetTime = r\<rparr>) = userMessageCounts s"
    using Nil.prems(1) by (simp add: fun_upd_idem)
  then show ?case using Nil.prems(2) by simp
next
  case (Cons t ts)
  have m: "map (\<lambda>k. c + k < 10) [0..<length (t # ts)]
             = (c < 10) # map (\<lambda>k. Suc c + k < 10) [0..<length ts]"
    using map_upt_Suc_shift[of "\<lambda>k. c + k < 10" "length ts"] by simp
  show ?case
  proof (cases "c < 10")
    case True
    let ?s' = "s\<lparr>userMessageCounts := (userMessageCounts s)(u \<mapsto> \<lparr>count = Suc c, resetTime = r\<rparr>)\<rparr>"
    have st: "checkRateLimit t u ''message'' s = (True, ?s')"
      using Cons.prems True by (simp add: check_in_window)
    have ih: "run_checks u ''message'' ts ?s' = (map (\<lambda>k. Suc c + k < 10) [0..<length ts],
      ?s'\<lparr>userMessageCounts := (userMessageCounts ?s')(u \<mapsto>
          \<lparr>count = min 10 (Suc c + length ts), resetTime = r\<rparr>)\<rparr>)"
      using Cons.prems True by (intro Cons.IH) auto
    have fin: "?s'\<lparr>userMessageCounts := (userMessageCounts ?s')(u \<mapsto>
          \<lparr>count = min 10 (Suc c + length ts), resetTime = r\<rparr>)\<rparr>
      = s\<lparr>userMessageCounts := (userMessageCounts s)(u \<mapsto>
          \<lparr>count = min 10 (c + length (t # ts)), resetTime = r\<rparr>)\<rparr>"
      by simp
    have "run_checks u ''message'' (t # ts) s = (True # map (\<lambda>k. Suc c + k < 10) [0..<length ts],
      s\<lparr>userMessageCounts := (userMessageCounts s)(u \<mapsto>
          \<lparr>count = min 10 (c + length (t # ts)), resetTime = r\<rparr>)\<rparr>)"
      by (simp only: run_checks.simps st ih prod.case fin)
    then show ?thesis unfolding m using True by (simp only: simp_thms)
  next
    case False
    then have c10: "c = 10" using Cons.prems(2) by simp
    have st: "checkRateLimit t u ''message'' s = (False, s)"
      using Cons.prems False by (simp add: check_in_window)
    have ih: "run_checks u ''message'' ts s = (map (\<lambda>k. c + k < 10) [0..<length ts],
      s\<lparr>userMessageCounts := (userMessageCounts s)(u \<mapsto>
          \<lparr>count = min 10 (c + length ts), resetTime = r\<rparr>)\<rparr>)"
      using Cons.prems by (intro Cons.IH) auto
    have fin: "min 10 (c + length ts) = min 10 (c + length (t # ts))"
      using c10 by simp
    have "run_checks u ''message'' (t # ts) s = (False # map (\<lambda>k. c + k < 10) [0..<length ts],
      s\<lparr>userMessageCounts := (userMessageCounts s)(u \<mapsto>
          \<lparr>count = min 10 (c + length (t # ts)), resetTime = r\<rparr>)\<rparr>)"
      by (simp only: run_checks.simps st ih prod.case fin)
    moreover have "map (\<lambda>k. c + k < 10) [0..<length ts] = map (\<lambda>k. Suc c + k < 10) [0..<length ts]"
      using c10 by simp
    ultimately show ?thesis unfolding m using False by (simp only: simp_thms)
  qed
qed

text \<open>
  Claim C5.  With the message-class limit of 10 per 60-second window: when the check at
  \<open>t_first\<close> opens a window (no entry is stored for the identity, or the stored window has
  elapsed) and the following checks \<open>ts\<close> fall inside it (each at most at
  \<open>t_first + 60000\<close>, the stored reset time), the checks number 1 to 10 are allowed and
  every later one is denied, the 11th in particular; and the first check at a time
  strictly past the reset time is allowed and stores the counter 1 with the reset time
  60000 after that check.
\<close>

theorem rate_limit_window:
  assumes start: "case userMessageCounts s u of None \<Rightarrow> True | Some e \<Rightarrow> resetTime e < t_first"
      and win: "\<forall>t\<in>set ts. t \<le> t_first + 60000"
      and later: "t_first + 60000 < t_later"
  shows "fst (run_checks u ''message'' (t_first # ts) s) = map (\<lambda>k. k < 10) [0..<Suc (length ts)]
       \<and> (10 \<le> length ts \<longrightarrow> fst (run_checks u ''message'' (t_first # ts) s) ! 10 = False)
       \<and> checkRateLimit t_later u ''message'' (snd (run_checks u ''message'' (t_first # ts) s)) =
          (True, s\<lparr>userMessageCounts := (userMessageCounts s)(u \<mapsto>
              \<lparr>count = 1, resetTime = t_later + 60000\<rparr>)\<rparr>)"
proof -
  let ?s1 = "s\<lparr>userMessageCounts := (userMessageCounts s)(u \<mapsto>
      \<lparr>count = 1, resetTime = t_first + 60000\<rparr>)\<rparr>"
  let ?s2 = "s\<lparr>userMessageCounts := (userMessageCounts s)(u \<mapsto>
      \<lparr>count = min 10 (1 + length ts), resetTime = t_first + 60000\<rparr>)\<rparr>"
  have first: "checkRateLimit t_first u ''message'' s = (True, ?s1)"
    using start by (rule check_reset)
  have "run_checks u ''message'' ts ?s1 = (map (\<lambda>k. 1 + k < 10) [0..<length ts],
      ?s1\<lparr>userMessageCounts := (userMessageCounts ?s1)(u \<mapsto>
          \<lparr>count = min 10 (1 + length ts), resetTime = t_first + 60000\<rparr>)\<rparr>)"
    using win by (intro run_in_window) simp_all
  moreover have "?s1\<lparr>userMessageCounts := (userMessageCounts ?s1)(u \<mapsto>
      \<lparr>count = min 10 (1 + length ts), resetTime = t_first + 60000\<rparr>)\<rparr> = ?s2"
    by simp
  ultimately have rest: "run_checks u ''message'' ts ?s1 = (map (\<lambda>k. 1 + k < 10) [0..<length ts], ?s2)"
    by (simp only:)
  have run: "run_checks u ''message'' (t_first # ts) s
               = (True # map (\<lambda>k. 1 + k < 10) [0..<length ts], ?s2)"
    by (simp only: run_checks.simps first rest prod.case)
  have res: "fst (run_checks u ''message'' (t_first # ts) s) = map (\<lambda>k. k < 10) [0..<Suc (length ts)]"
    unfolding run using map_upt_Suc_shift[of "\<lambda>k. k < 10" "length ts"] by simp
  have eleventh: "10 \<le> length ts \<longrightarrow> fst (run_checks u ''message'' (t_first # ts) s) ! 10 = False"
    unfolding res by (simp add: nth_map_upt del: upt_Suc)
  have after: "checkRateLimit t_later u ''message'' ?s2 =
      (True, ?s2\<lparr>userMessageCounts := (userMessageCounts ?s2)(u \<mapsto>
          \<lparr>count = 1, resetTime = t_later + 60000\<rparr>)\<rparr>)"
    using later by (intro check_reset) simp
  have sn: "snd (run_checks u ''message'' (t_first # ts) s) = ?s2"
    by (simp only: run snd_conv)
  have after': "checkRateLimit t_later u ''message'' (snd (run_checks u ''message'' (t_first # ts) s)) =
          (True, s\<lparr>userMessageCounts := (userMessageCounts s)(u \<mapsto>
              \<lparr>count = 1, resetTime = t_later + 60000\<rparr>)\<rparr>)"
    unfolding sn after by simp
  show ?thesis by (intro conjI res eleventh after')
qed

theorem rate_limit_window_witness:
  "fst (run_checks ''alice'' ''message''
          [0, 1000, 2000, 3000, 4000, 5000, 6000, 7000, 8000, 9000, 60000] initial_state)
     = [True, True, True, True, True, True, True, True, True, True, False]
   \<and> fst (run_checks ''alice'' ''message''
          [0, 1000, 2000, 3000, 4000, 5000, 6000, 7000, 8000, 9000, 60000] initial_state) ! 10 = False
   \<and> checkRateLimit 60001 ''alice'' ''message''
       (snd (run_checks ''alice'' ''message''
          [0, 1000, 2000, 3000, 4000, 5000, 6000, 7000, 8000, 9000, 60000] initial_state))
     = (True, initial_state\<lparr>userMessageCounts := (userMessageCounts initial_state)(''alice'' \<mapsto>
          \<lparr>count = 1, resetTime = 120001\<rparr>)\<rparr>)"
  using rate_limit_window[where s = initial_state and u = "''alice''" and t_first = 0
      and ts = "[1000, 2000, 3000, 4000, 5000, 6000, 7000, 8000, 9000, 60000]" and t_later = 60001]
  by (simp add: initial_state_def upt_conv_Cons del: upt_Suc)

lemma check_denied_unchanged:
  "\<not> fst (checkRateLimit now u ty s) \<Longrightarrow> snd (checkRateLimit now u ty s) = s"
  by (auto simp: checkRateLimit_def Let_def split: option.splits if_splits)

lemma check_allowed_counter:
  "fst (checkRateLimit now u ty s) \<Longrightarrow>
     counter_of ty (snd (checkRateLimit now u ty s)) u = 1
   \<or> counter_of ty (snd (checkRateLimit now u ty s)) u = Suc (counter_of ty s u)"
  by (auto simp: checkRateLimit_def counter_of_def Let_def split: option.splits if_splits)

lemma check_keeps_bound:
  assumes "counter_of ty' s v \<le> limit_of ty'"
  shows "counter_of ty' (snd (checkRateLimit now u ty s)) v \<le> limit_of ty'"
  using assms
  by (auto simp: checkRateLimit_def counter_of_def limit_of_def Let_def
        MESSAGE_RATE_LIMIT_def FILE_RATE_LIMIT_def split: option.splits if_splits)

lemma run_calls_keeps_bound:
  "counter_of ty' s v \<le> limit_of ty' \<Longrightarrow> counter_of ty' (run_calls cs s) v \<le> limit_of ty'"
proof (induction cs arbitrary: s)
  case Nil
  then show ?case by simp
next
  case (Cons c cs)
  obtain now u ty where c: "c = (now, u, ty)" by (cases c) auto
  show ?case unfolding c run_calls.simps
    by (rule Cons.IH) (rule check_keeps_bound[OF Cons.prems])
qed

text \<open>
  Claim C9.  From a state in which the counters of an identity are within the class
  limits (10 for message, 5 for file; in particular from the initial state, where nothing
  is stored), they are within the limits after any sequence of checkRateLimit calls for
  any identities, classes and times.  A denied call leaves the whole state, so the counter
  and the window, as it was; an allowed call stores the counter 1 or the old counter
  plus one, so the counter moves only on an allowed call.
\<close>

theorem rate_counter_bounded:
  assumes "counter_of ''message'' s v \<le> 10" and "counter_of ''file'' s v \<le> 5"
  shows "counter_of ''message'' (run_calls cs s) v \<le> 10
       \<and> counter_of ''file'' (run_calls cs s) v \<le> 5
       \<and> (if fst (checkRateLimit now u ty (run_calls cs s))
          then counter_of ty (snd (checkRateLimit now u ty (run_calls cs s))) u = 1
             \<or> counter_of ty (snd (checkRateLimit now u ty (run_calls cs s))) u
                  = Suc (counter_of ty (run_calls cs s) u)
          else snd (checkRateLimit now u ty (run_calls cs s)) = run_calls cs s)"
proof -
  have m: "counter_of ''message'' (run_calls cs s) v \<le> 10"
    using run_calls_keeps_bound[of "''message''" s v cs] assms(1)
    by (simp add: limit_of_def MESSAGE_RATE_LIMIT_def)
  have f: "counter_of ''file'' (run_calls cs s) v \<le> 5"
    using run_calls_keeps_bound[of "''file''" s v cs] assms(2)
    by (simp add: limit_of_def FILE_RATE_LIMIT_def)
  show ?thesis
    using m f check_denied_unchanged[of now u ty "run_calls cs s"]
      check_allowed_counter[of now u ty "run_calls cs s"]
    by (simp only: split: if_split) blast
qed

theorem rate_counter_bounded_witness:
  "counter_of ''message'' initial_state ''alice'' \<le> 10
   \<and> counter_of ''file'' initial_state ''alice'' \<le> 5
   \<and> counter_of ''message'' (run_calls [(0, ''alice'', ''message''), (1, ''alice'', ''message''),
        (2, ''alice'', ''message''), (3, ''bob'', ''file''), (4, ''alice'', ''message''),
        (5, ''alice'', ''message''), (6, ''alice'', ''message''), (7, ''alice'', ''message''),
        (8, ''alice'', ''message''), (9, ''alice'', ''message''), (10, ''alice'', ''message''),
        (11, ''alice'', ''message''), (12, ''alice'', ''message'')] initial_state) ''alice'' = 10
   \<and> \<not> fst (checkRateLimit 13 ''alice'' ''message'' (run_calls [(0, ''alice'', ''message''),
        (1, ''alice'', ''message''),
        (2, ''alice'', ''message''), (3, ''bob'', ''file''), (4, ''alice'', ''message''),
        (5, ''alice'', ''message''), (6, ''alice'', ''message''), (7, ''alice'', ''message''),
        (8, ''alice'', ''message''), (9, ''alice'', ''message''), (10, ''alice'', ''message''),
        (11, ''alice'', ''message''), (12, ''alice'', ''message'')] initial_state))
   \<and> snd (checkRateLimit 13 ''alice'' ''message'' (run_calls [(0, ''alice'', ''message''),
        (1, ''alice'', ''message''),
        (2, ''alice'', ''message''), (3, ''bob'', ''file''), (4, ''alice'', ''message''),
        (5, ''alice'', ''message''), (6, ''alice'', ''message''), (7, ''alice'', ''message''),
        (8, ''alice'', ''message''), (9, ''alice'', ''message''), (10, ''alice'', ''message''),
        (11, ''alice'', ''message''), (12, ''alice'', ''message'')] initial_state))
      = run_calls [(0, ''alice'', ''message''), (1, ''alice'', ''message''),
        (2, ''alice'', ''message''), (3, ''bob'', ''file''), (4, ''alice'', ''message''),
        (5, ''alice'', ''message''), (6, ''alice'', ''message''), (7, ''alice'', ''message''),
        (8, ''alice'', ''message''), (9, ''alice'', ''message''), (10, ''alice'', ''message''),
        (11, ''alice'', ''message''), (12, ''alice'', ''message'')] initial_state"
  using rate_counter_bounded[where s = initial_state and v = "''alice''"
      and cs = "[(0, ''alice'', ''message''), (1, ''alice'', ''message''),
        (2, ''alice'', ''message''), (3, ''bob'', ''file''), (4, ''alice'', ''message''),
        (5, ''alice'', ''message''), (6, ''alice'', ''message''), (7, ''alice'', ''message''),
        (8, ''alice'', ''message''), (9, ''alice'', ''message''), (10, ''alice'', ''message''),
        (11, ''alice'', ''message''), (12, ''alice'', ''message'')]"
      and now = 13 and u = "''alice''" and ty = "''message''"]
  by (simp add: initial_state_def counter_of_def checkRateLimit_def Let_def
        MESSAGE_RATE_LIMIT_def FILE_RATE_LIMIT_def)

section \<open>Room snapshots\<close>

lemma map_filter_member_entry:
  "List.map_filter (member_entry us) ms =
     map (\<lambda>u. member_view_of (the (map_of us u))) (filter (\<lambda>u. map_of us u \<noteq> None) ms)"
  by (induction ms) (auto simp: member_entry_def split: option.splits)

text \<open>
  Claim C7.  The snapshot of a room built for clients has exactly the fields of
  \<open>room_view\<close>: id, name, isPrivate, leader id, maxMembers, memberCount, createdAt and
  the members list of id, name, avatar and lastSeen.  It does not depend on the PIN
  digest: for every registry and room, the snapshots of the room with any two digests
  (or none) in place of its own are equal.
\<close>

theorem serializeRoom_hides_pin:
  "serializeRoom us (r\<lparr>pinHash := p\<rparr>) = serializeRoom us (r\<lparr>pinHash := q\<rparr>)"
  by (simp add: serializeRoom_def)

text \<open>
  Claim C10.  serializeRoom reports memberCount as the size of the member set, while its
  members list holds an entry for exactly the member ids that resolve in the user
  registry, in order; so the list is never longer than memberCount, and in some state
  with a member id absent from the registry memberCount strictly exceeds the length of
  the list.  The function has no failing branch: a stale id is skipped.
\<close>

theorem serializeRoom_member_count:
  "memberCount (serializeRoom us r) = length (members r)
   \<and> v_members (serializeRoom us r) =
       map (\<lambda>u. member_view_of (the (map_of us u))) (filter (\<lambda>u. map_of us u \<noteq> None) (members r))
   \<and> length (v_members (serializeRoom us r)) \<le> memberCount (serializeRoom us r)
   \<and> (\<exists>us' r' u. u \<in> set (members r') \<and> map_of us' u = None
         \<and> length (v_members (serializeRoom us' r')) < memberCount (serializeRoom us' r'))"
proof -
  let ?r = "\<lparr>room_id = ''r1'', room_name = ''lobby'', isPrivate = False,
     pinHash = None, leadUserId = ''alice'', members = [''alice''], maxMembers = 50, createdAt = 0\<rparr>"
  have "''alice'' \<in> set (members ?r) \<and> map_of ([] :: (uid \<times> user) list) ''alice'' = None
        \<and> length (v_members (serializeRoom [] ?r)) < memberCount (serializeRoom [] ?r)"
    by (simp add: serializeRoom_def member_entry_def)
  then have ex: "\<exists>us' r' u. u \<in> set (members r') \<and> map_of us' u = None
         \<and> length (v_members (serializeRoom us' r')) < memberCount (serializeRoom us' r')"
    by blast
  have a: "memberCount (serializeRoom us r) = length (members r)"
    by (simp add: serializeRoom_def)
  have b: "v_members (serializeRoom us r) =
       map (\<lambda>u. member_view_of (the (map_of us u))) (filter (\<lambda>u. map_of us u \<noteq> None) (members r))"
    by (simp add: serializeRoom_def map_filter_member_entry)
  have c: "length (v_members (serializeRoom us r)) \<le> memberCount (serializeRoom us r)"
    unfolding a b by simp
  from a b c ex show ?thesis by blast
qed

section \<open>The room directory invariant\<close>

text \<open>
  Creating, joining, joining by PIN, leaving and disconnecting keep the invariant of the
  directory, and so does a kick whose target is not the kicking identity.
\<close>

lemma list_all_update:
  "list_all P (map snd al) \<Longrightarrow> P v \<Longrightarrow> list_all P (map snd (AList.update k v al))"
  by (induction al) auto

lemma list_all_delete:
  "list_all P (map snd al) \<Longrightarrow> list_all P (map snd (AList.delete k al))"
  by (induction al) auto

lemma list_all_map_of:
  "list_all P (map snd al) \<Longrightarrow> map_of al k = Some v \<Longrightarrow> P v"
  by (induction al) (auto split: if_splits)

lemma find_pin_room_mem:
  "find_pin_room bcompare pin al = Some (k, r) \<Longrightarrow> (k, r) \<in> set al"
  by (induction al) (auto split: if_splits)

lemma room_ok_add: "room_ok r \<Longrightarrow> room_ok (r\<lparr>members := set_add u (members r)\<rparr>)"
  by (auto simp: room_ok_def set_add_def)

lemma room_ok_removed_lead:
  assumes "room_ok r" and "set_delete (leadUserId r) (members r) = m # ms"
  shows "room_ok (r\<lparr>members := m # ms, leadUserId := m\<rparr>)"
  by (simp add: room_ok_def)

lemma room_ok_removed_other:
  assumes "room_ok r" and "leadUserId r \<noteq> u" and "set_delete u (members r) = m # ms"
  shows "room_ok (r\<lparr>members := m # ms\<rparr>)"
proof -
  have "set (m # ms) = set (removeAll u (members r))"
    using assms(3) by (simp only: set_delete_def)
  then have "set (m # ms) = set (members r) - {u}"
    by (simp only: set_removeAll)
  then show ?thesis using assms(1,2) by (auto simp: room_ok_def)
qed

lemma room_create_keeps_ok:
  "directory_ok s \<Longrightarrow> directory_ok (snd (room_create bhash roomId now sock name isPriv pin maxM s))"
  by (auto simp: room_create_def directory_ok_def Let_def room_ok_def
        intro!: list_all_update split: option.splits)

lemma room_join_keeps_ok:
  "directory_ok s \<Longrightarrow> directory_ok (snd (room_join bcompare now sock roomId pin s))"
  by (auto simp: room_join_def directory_ok_def Let_def
        intro!: list_all_update room_ok_add dest: list_all_map_of split: option.splits)

lemma room_joinByPin_keeps_ok:
  assumes "directory_ok s"
  shows "directory_ok (snd (room_joinByPin bcompare sock pin s))"
proof -
  have "room_ok r" if "find_pin_room bcompare p (rooms s) = Some (k, r)" for p k r
    using find_pin_room_mem[OF that] assms by (force simp: directory_ok_def list_all_iff)
  then show ?thesis using assms
    by (auto simp: room_joinByPin_def directory_ok_def Let_def
          intro!: list_all_update room_ok_add split: option.splits)
qed

lemma room_leave_keeps_ok:
  assumes "directory_ok s"
  shows "directory_ok (snd (room_leave sock roomId s))"
proof (cases "socketToUser s sock")
  case None
  then show ?thesis using assms by (simp add: room_leave_def)
next
  case (Some userId)
  show ?thesis
  proof (cases "map_of (rooms s) roomId")
    case None
    then show ?thesis using assms Some by (simp add: room_leave_def)
  next
    case (Some r)
    have ok: "room_ok r" using assms Some by (auto simp: directory_ok_def dest: list_all_map_of)
    show ?thesis
      using assms \<open>socketToUser s sock = Some userId\<close> Some ok
      by (auto simp: room_leave_def directory_ok_def Let_def
            intro!: list_all_update list_all_delete room_ok_removed_lead room_ok_removed_other
            split: list.splits)
  qed
qed

lemma remove_from_rooms_keeps_ok:
  "remove_from_rooms us sock u al = (effs, rest) \<Longrightarrow> list_all room_ok (map snd al)
     \<Longrightarrow> list_all room_ok (map snd rest)"
proof (induction al arbitrary: effs rest)
  case Nil
  then show ?case by simp
next
  case (Cons a al)
  obtain k r where a: "a = (k, r)" by (cases a)
  obtain effs' rest' where rec: "remove_from_rooms us sock u al = (effs', rest')"
    by (cases "remove_from_rooms us sock u al")
  have ih: "list_all room_ok (map snd rest')" using Cons.IH[OF rec] Cons.prems(2) by simp
  have ok: "room_ok r" using Cons.prems(2) a by simp
  show ?case
    using Cons.prems(1) ih ok unfolding a
    by (auto simp: rec Let_def intro!: room_ok_removed_lead room_ok_removed_other
          split: list.splits if_splits)
qed

lemma disconnect_keeps_ok:
  "directory_ok s \<Longrightarrow> directory_ok (snd (disconnect sock s))"
  by (auto simp: disconnect_def directory_ok_def Let_def dest: remove_from_rooms_keeps_ok
        split: option.splits prod.splits)

lemma room_kick_other_keeps_ok:
  assumes "directory_ok s" and "socketToUser s sock \<noteq> Some targetUserId"
  shows "directory_ok (snd (room_kick sock roomId targetUserId s))"
proof (cases "map_of (rooms s) roomId")
  case None
  then show ?thesis using assms by (simp add: room_kick_def)
next
  case (Some r)
  have ok: "room_ok r" using assms Some by (auto simp: directory_ok_def dest: list_all_map_of)
  have "room_ok (r\<lparr>members := set_delete targetUserId (members r)\<rparr>)"
    if "leadUserId r \<noteq> targetUserId"
  proof -
    have "set (set_delete targetUserId (members r)) = set (members r) - {targetUserId}"
      by (simp only: set_delete_def set_removeAll)
    moreover have "leadUserId r \<in> set (members r) - {targetUserId}"
      using ok that by (simp add: room_ok_def)
    ultimately have "leadUserId r \<in> set (set_delete targetUserId (members r))"
      by (simp only:)
    then show ?thesis by (auto simp: room_ok_def)
  qed
  moreover have "leadUserId r \<noteq> targetUserId" if "Some (leadUserId r) = socketToUser s sock"
    using that assms(2) by metis
  ultimately have ok': "room_ok (r\<lparr>members := set_delete targetUserId (members r)\<rparr>)"
    if "Some (leadUserId r) = socketToUser s sock"
    using that by blast
  show ?thesis using assms(1) Some ok'
    by (auto simp: room_kick_def directory_ok_def Let_def intro!: list_all_update)
qed

text \<open>
  Claim C1.  After every operation (create, join, joinByPin, leave, kick, disconnect)
  every room of the directory has its lead among its members when it has members, and a
  room without members is gone from the directory.  The room:kick handler breaks both
  parts when the lead names itself as the target: it removes the lead from the member
  set and neither passes the lead on nor deletes the emptied room, which room:leave and
  disconnect do.  In the lobby (lead Alice, members Alice and Bob) Alice's kick of Alice
  leaves the room with the only member Bob and the lead Alice; where Alice is alone,
  it leaves the room in the directory with no member.
\<close>

theorem kick_of_lead_breaks_invariant:
  "directory_ok lobby_state
   \<and> map (\<lambda>(k, r). (k, leadUserId r, members r)) (rooms lobby_state)
       = [(''r1'', ''alice'', [''alice'', ''bob''])]
   \<and> socketToUser lobby_state ''s1'' = Some ''alice''
   \<and> map (\<lambda>(k, r). (k, leadUserId r, members r))
        (rooms (snd (room_kick ''s1'' ''r1'' ''alice'' lobby_state)))
       = [(''r1'', ''alice'', [''bob''])]
   \<and> \<not> directory_ok (snd (room_kick ''s1'' ''r1'' ''alice'' lobby_state))
   \<and> directory_ok solo_state
   \<and> map (\<lambda>(k, r). (k, leadUserId r, members r))
        (rooms (snd (room_kick ''s1'' ''r1'' ''alice'' solo_state)))
       = [(''r1'', ''alice'', [])]
   \<and> \<not> directory_ok (snd (room_kick ''s1'' ''r1'' ''alice'' solo_state))"
  by code_simp

section \<open>Room capacity\<close>

text \<open>room:join at a room whose member count equals maxMembers reports that the room is full.\<close>

lemma room_join_full:
  assumes "socketToUser s sock = Some userId" and "userId \<noteq> []"
      and "map_of (users s) userId = Some u"
      and "map_of (rooms s) roomId = Some r"
      and "int (length (members r)) = maxMembers r"
  shows "room_join bcompare now sock roomId pin s = ([Emit (ToSocket sock) (Error ''Room is full'')], s)"
  using assms by (simp add: room_join_def err_def)

text \<open>
  Claim C2.  A join by a registered identity at a room whose member count equals its
  maxMembers fails with the error for a full room and leaves the member set as it was,
  for room:join and for room:joinByPin alike.  room:joinByPin has no capacity check: in
  the private room for two with the members Alice and Bob, room:join by Carol is
  refused and changes nothing, while room:joinByPin by Carol with the PIN makes her the
  third member and reports no error.
\<close>

theorem joinByPin_ignores_capacity:
  "map (\<lambda>(k, r). (k, maxMembers r, members r)) (rooms den_state)
       = [(''r1'', 2, [''alice'', ''bob''])]
   \<and> socketToUser den_state ''s3'' = Some ''carol''
   \<and> fst (room_join (\<lambda>p h. p = h) 5 ''s3'' ''r1'' (Some ''4821'') den_state)
       = [Emit (ToSocket ''s3'') (Error ''Room is full'')]
   \<and> rooms (snd (room_join (\<lambda>p h. p = h) 5 ''s3'' ''r1'' (Some ''4821'') den_state))
       = rooms den_state
   \<and> map (\<lambda>(k, r). (k, maxMembers r, members r))
        (rooms (snd (room_joinByPin (\<lambda>p h. p = h) ''s3'' (Some ''4821'') den_state)))
       = [(''r1'', 2, [''alice'', ''bob'', ''carol''])]
   \<and> Emit (ToSocket ''s3'') (Error ''Room is full'')
        \<notin> set (fst (room_joinByPin (\<lambda>p h. p = h) ''s3'' (Some ''4821'') den_state))"
  by code_simp

section \<open>maxMembers at room creation\<close>

text \<open>
  What room:create stores: for a registered identity that leads fewer than 10 rooms, the
  created room's maxMembers is the minimum of the requested value and 50, and 50 when the
  request gives none or 0.  So it is at most 50; nothing bounds it from below.
\<close>

lemma room_create_stores_min:
  assumes "socketToUser s sock = Some userId" and "userId \<noteq> []"
      and "map_of (users s) userId = Some u"
      and "length (filter (\<lambda>r. leadUserId r = userId) (map snd (rooms s))) < 10"
  shows "map_option maxMembers
           (map_of (rooms (snd (room_create bhash roomId now sock name isPriv pin maxM s))) roomId)
         = Some (case maxM of None \<Rightarrow> 50 | Some n \<Rightarrow> if n = 0 then 50 else min n 50)
       \<and> (case maxM of None \<Rightarrow> 50 | Some n \<Rightarrow> if n = 0 then 50 else min n 50) \<le> (50::int)"
  using assms
  by (auto simp: room_create_def Let_def MAX_ROOMS_PER_USER_def MAX_ROOM_MEMBERS_def
        AList.update_conv' split: option.splits)

text \<open>
  Claim C3.  For every room:create request the created room's maxMembers lies in
  [2, 50], whatever value the client supplies.  The handler caps the request at 50 and
  puts 50 for a missing one, but has no lower bound, which only the client's form
  checks (its message: max members must be between 2 and 50): Alice's requests for 1 and for -3
  create rooms with maxMembers 1 and -3, while her request for 80 is capped at 50.
\<close>

theorem room_create_below_two:
  "socketToUser three_users ''s1'' = Some ''alice''
   \<and> map (\<lambda>(k, r). (k, maxMembers r))
       (rooms (snd (room_create (\<lambda>p. p) ''r1'' 3 ''s1'' ''solo'' False None (Some 1) three_users)))
       = [(''r1'', 1)]
   \<and> \<not> (2::int) \<le> 1
   \<and> map (\<lambda>(k, r). (k, maxMembers r))
       (rooms (snd (room_create (\<lambda>p. p) ''r1'' 3 ''s1'' ''solo'' False None (Some (- 3)) three_users)))
       = [(''r1'', - 3)]
   \<and> map (\<lambda>(k, r). (k, maxMembers r))
       (rooms (snd (room_create (\<lambda>p. p) ''r1'' 3 ''s1'' ''solo'' False None (Some 80) three_users)))
       = [(''r1'', 50)]"
  by code_simp

section \<open>Signaling relay\<close>

text \<open>
  webrtc:offer with a room id forwards the offer when the target resolves and the room
  has both the sender and the target as members, and reports an error to the sender
  otherwise.
\<close>

lemma webrtc_offer_scoped:
  assumes "truthy roomId"
  shows "webrtc_offer sock targetUserId offer roomId s =
     (case map_of (users s) targetUserId of
        None \<Rightarrow> ([Emit (ToSocket sock) (Error ''Target user not found'')], s)
      | Some targetUser \<Rightarrow>
          if (\<exists>r. map_of (rooms s) (the roomId) = Some r
                 \<and> has_member r (socketToUser s sock) \<and> targetUserId \<in> set (members r))
          then ([Emit (ToSocket (socketId targetUser)) (WebrtcOffer (socketToUser s sock) offer roomId)], s)
          else ([Emit (ToSocket sock)
                   (Error ''Both users must be in the same room for direct connection'')], s))"
  using assms by (cases roomId) (auto simp: webrtc_offer_def err_def split: option.splits)

text \<open>
  Bob is not a member of r1, whose only member is Alice: his offer to Alice with the
  room id r1 is refused.
\<close>

lemma offer_of_non_member_refused:
  "map (\<lambda>(k, r). (k, members r)) (rooms solo_state) = [(''r1'', [''alice''])]
   \<and> socketToUser solo_state ''s2'' = Some ''bob''
   \<and> fst (webrtc_offer ''s2'' ''alice'' ''sdp'' (Some ''r1'') solo_state)
       = [Emit (ToSocket ''s2'') (Error ''Both users must be in the same room for direct connection'')]"
  by code_simp

text \<open>
  Claim C4.  A signaling message that carries a room id (offer, answer, ICE candidate) is
  forwarded only if the sender and the target are both members of that room, and is
  refused with an error otherwise.  Only webrtc:offer checks this.  Bob, who is not a
  member of r1, names r1 and the target Alice: his answer and his ICE candidate are
  forwarded to Alice's socket, and nothing is reported to him.
\<close>

theorem answer_and_candidate_skip_room_check:
  "map (\<lambda>(k, r). (k, members r)) (rooms solo_state) = [(''r1'', [''alice''])]
   \<and> socketToUser solo_state ''s2'' = Some ''bob''
   \<and> fst (webrtc_answer ''s2'' ''alice'' ''sdp'' (Some ''r1'') solo_state)
       = [Emit (ToSocket ''s1'') (WebrtcAnswer (Some ''bob'') ''sdp'' (Some ''r1''))]
   \<and> fst (webrtc_ice_candidate ''s2'' ''alice'' ''cand'' (Some ''r1'') solo_state)
       = [Emit (ToSocket ''s1'') (WebrtcIceCandidate (Some ''bob'') ''cand'' (Some ''r1''))]"
  by code_simp

section \<open>File transfer admission\<close>




text \<open>
  A start without a file name: in the lobby Alice's start of 10 bytes in 1 chunk passes
  the three checks and fails when the payload for Bob is built; where she is alone in
  the room nothing is built, and nothing is emitted.
\<close>

lemma file_start_without_name:
  "fst (checkRateLimit 10 ''alice'' ''file'' lobby_state)
   \<and> fst (room_file_start 10 ''s1'' ''r1'' ''f1'' None 10 1 lobby_state)
       = [Emit (ToSocket ''s1'') (Error ''Failed to start file transfer'')]
   \<and> fst (room_file_start 10 ''s1'' ''r1'' ''f1'' None 10 1 solo_state) = []"
  by code_simp



section \<open>Operations of an unidentified connection\<close>





end
